theory Spec2Isabelle
  imports Main "HOL-Library.Sublist"
begin

section \<open>The prompt-forwarding script \<^verbatim>\<open>main.py\<close>\<close>

text \<open>
  The script reads one prompt, checks that \<^verbatim>\<open>OPENAI_API_KEY\<close> is set, builds a
  language-model client and an agent through an imported framework, calls the agent once
  and prints the response and an error message. Everything the framework and the
  interpreter do is outside the script; the model takes it as data:
  \<^item> a raised Python object is a value of type \<open>exn\<close>, carrying the classes it is an
    instance of and what \<^verbatim>\<open>str(e)\<close> does for it: give a text, or raise in its turn;
  \<^item> a call that may raise returns \<open>exn + 'a\<close>, \<open>Inl\<close> being the raise;
  \<^item> the calls into the framework and the writes to standard output are recorded, in
    order, in a list of events that every function takes and returns;
  \<^item> the process environment, the clock and the outcome of each framework call are
    the fields of a record \<open>world\<close>.
  Python strings are modelled as \<open>string\<close>.
\<close>

subsection \<open>Exceptions\<close>

text \<open>
  The classes the handlers of \<^verbatim>\<open>run_chain\<close> name, their common bases, and any other
  class by its name. \<open>classes e\<close> lists the class of \<open>e\<close> together with all its base
  classes, so \<^verbatim>\<open>isinstance(e, C)\<close>, which is what an \<^verbatim>\<open>except C\<close> clause tests, is
  membership in that list. An object that is raised but is not an instance of
  \<open>Exception\<close> (a keyboard interrupt, an interpreter exit) has \<open>BaseException\<close> only.

  \<open>str e\<close> is the outcome of \<^verbatim>\<open>str(e)\<close>: \<open>Inr\<close> the text, or \<open>Inl\<close> the exception that
  the call raises, which is what happens when the \<^verbatim>\<open>__str__\<close> of the class raises, and
  (with a \<open>TypeError\<close>) when it returns something that is not a string.
\<close>

datatype pyclass =
    BaseException
  | Exception
  | ValueError
  | OpenAIError
  | AuthenticationError
  | InvalidRequestError
  | RateLimitError
  | OtherClass string

datatype exn = Exn (classes: "pyclass list") (str: "exn + string")

definition isinstance :: "exn \<Rightarrow> pyclass \<Rightarrow> bool" where
  "isinstance e c = (c \<in> set (classes e))"

text \<open>\<^verbatim>\<open>Exception(msg)\<close>: a direct instance of \<open>Exception\<close> whose text is \<open>msg\<close>.\<close>

definition Exception_of :: "string \<Rightarrow> exn" where
  "Exception_of msg = Exn [Exception, BaseException] (Inr msg)"

subsection \<open>Constants of the script\<close>

definition BUG_FOUND_MSG :: string where
  "BUG_FOUND_MSG = ''Congratulations, you've found a bug in this application!''"

definition AUTH_ERR_MSG :: string where
  "AUTH_ERR_MSG = ''Please paste your OpenAI key from openai.com to use this application. ''"

definition WOLFRAM_LANGCHAIN_TOOL_NAME :: string where
  "WOLFRAM_LANGCHAIN_TOOL_NAME = ''wolfram-alpha''"

definition MAX_OPENAI_TOKENS :: int where
  "MAX_OPENAI_TOKENS = 512"

subsection \<open>Events and the world outside the script\<close>

text \<open>The client \<^verbatim>\<open>OpenAI(temperature=.., max_tokens=..)\<close> and the memory object.\<close>

record llm =
  temperature :: int
  max_tokens :: int

record memory =
  memory_key :: string

text \<open>
  The agent is used through \<^verbatim>\<open>chain.run(prompt)\<close> only: it is modelled by what that call
  does on a prompt, returning a string or raising.
\<close>

type_synonym chain = "string \<Rightarrow> exn + string"

datatype event =
    OpenAI_call llm
  | load_tools_call "string list" llm
  | ConversationBufferMemory_call memory
  | initialize_agent_call "string list" llm string bool memory
  | chain_run_call string
  | stdout_write string

text \<open>
  \<open>environ\<close> is \<^verbatim>\<open>os.environ\<close>; \<open>clock\<close> is the text of
  \<^verbatim>\<open>str(datetime.datetime.now())\<close> at the moment the script reads the time; each
  \<open>_raises\<close> field says whether that framework call raises (and what); \<open>agent\<close> is the
  object \<^verbatim>\<open>initialize_agent\<close> returns.
\<close>

record world =
  environ :: "string \<rightharpoonup> string"
  clock :: string
  OpenAI_raises :: "exn option"
  load_tools_raises :: "exn option"
  ConversationBufferMemory_raises :: "exn option"
  initialize_agent_raises :: "exn option"
  agent :: chain

text \<open>
  \<^verbatim>\<open>print(a, b)\<close> writes its arguments separated by one space and ends the line.
\<close>

fun join_space :: "string list \<Rightarrow> string" where
  "join_space [] = ''''"
| "join_space [a] = a"
| "join_space (a # b # rest) = a @ '' '' @ join_space (b # rest)"

definition print_py :: "string list \<Rightarrow> event list \<Rightarrow> event list" where
  "print_py args tr = tr @ [stdout_write (join_space args @ ''\<newline>'')]"

subsection \<open>The functions of the script\<close>

text \<open>
  \<^verbatim>\<open>init_langchain_llm\<close>: the credential check comes first; the client is constructed
  only when the variable is present (with whatever value, the test is on the key).
\<close>

definition init_langchain_llm :: "world \<Rightarrow> event list \<Rightarrow> (exn + llm) \<times> event list" where
  "init_langchain_llm w tr =
     (if ''OPENAI_API_KEY'' \<notin> dom (environ w)
      then (Inl (Exception_of ''please set OPENAI_API_KEY environment variable''), tr)
      else
        (let llm = \<lparr>temperature = 0, max_tokens = MAX_OPENAI_TOKENS\<rparr>;
             tr1 = tr @ [OpenAI_call llm]
         in case OpenAI_raises w of
              Some e \<Rightarrow> (Inl e, tr1)
            | None \<Rightarrow> (Inr llm, tr1)))"

definition init_langchain :: "world \<Rightarrow> event list \<Rightarrow> (exn + chain) \<times> event list" where
  "init_langchain w tr =
     (case init_langchain_llm w tr of
        (Inl e, tr1) \<Rightarrow> (Inl e, tr1)
      | (Inr llm, tr1) \<Rightarrow>
          (let tools = [WOLFRAM_LANGCHAIN_TOOL_NAME];
               tr2 = tr1 @ [load_tools_call tools llm]
           in case load_tools_raises w of
                Some e \<Rightarrow> (Inl e, tr2)
              | None \<Rightarrow>
                  (let memory = \<lparr>memory_key = ''chat_history''\<rparr>;
                       tr3 = tr2 @ [ConversationBufferMemory_call memory]
                   in case ConversationBufferMemory_raises w of
                        Some e \<Rightarrow> (Inl e, tr3)
                      | None \<Rightarrow>
                          (let tr4 = tr3 @ [initialize_agent_call tools llm
                                              ''conversational-react-description'' True memory]
                           in case initialize_agent_raises w of
                                Some e \<Rightarrow> (Inl e, tr4)
                              | None \<Rightarrow> (Inr (agent w), tr4)))))"

text \<open>
  \<^verbatim>\<open>run_chain\<close>: one call of \<^verbatim>\<open>chain.run\<close>; the handlers are tried in the order they
  are written, each by \<^verbatim>\<open>isinstance\<close>; an object no handler matches leaves the function
  as a raise. \<open>now\<close> is the clock reading the first handler takes. Every handler builds
  its message with \<^verbatim>\<open>str\<close> of the caught exception; when that call raises, the handler
  is left at once and the new exception leaves \<open>run_chain\<close>, no later handler of the same
  \<^verbatim>\<open>try\<close> applying to it.
\<close>

definition run_chain ::
  "string \<Rightarrow> chain \<Rightarrow> string \<Rightarrow> event list \<Rightarrow> (exn + string \<times> string) \<times> event list" where
  "run_chain now chain prompt tr =
     (let response = '''';
          error_msg = '''';
          tr1 = tr @ [chain_run_call prompt]
      in case chain prompt of
           Inr r \<Rightarrow> (Inr (r, error_msg), tr1)
         | Inl e \<Rightarrow>
             if isinstance e AuthenticationError then
               (case str e of
                  Inl raised \<Rightarrow> (Inl raised, tr1)
                | Inr ae \<Rightarrow>
                    (let error_msg = AUTH_ERR_MSG @ now @ ''. '' @ ae
                     in (Inr (response, error_msg), print_py [''error_msg'', error_msg] tr1)))
             else if isinstance e RateLimitError then
               (case str e of
                  Inl raised \<Rightarrow> (Inl raised, tr1)
                | Inr rle \<Rightarrow> (Inr (response, ''\<newline>\<newline>RateLimitError: '' @ rle), tr1))
             else if isinstance e ValueError then
               (case str e of
                  Inl raised \<Rightarrow> (Inl raised, tr1)
                | Inr ve \<Rightarrow> (Inr (response, ''\<newline>\<newline>ValueError: '' @ ve), tr1))
             else if isinstance e InvalidRequestError then
               (case str e of
                  Inl raised \<Rightarrow> (Inl raised, tr1)
                | Inr ire \<Rightarrow>
                    (Inr (response, ''\<newline>\<newline>InvalidRequestError: '' @ ire), tr1))
             else if isinstance e Exception then
               (case str e of
                  Inl raised \<Rightarrow> (Inl raised, tr1)
                | Inr msg \<Rightarrow>
                    (Inr (response,
                          ''\<newline>\<newline>'' @ BUG_FOUND_MSG @ '':\<newline>\<newline>'' @ msg), tr1))
             else (Inl e, tr1))"

text \<open>
  The module body from \<^verbatim>\<open>chain = init_langchain()\<close> on, for the prompt the argument
  parser has returned. \<open>Inr ()\<close> is the script reaching its last statement (the
  interpreter then exits with status 0); \<open>Inl e\<close> is \<open>e\<close> leaving the module uncaught.
\<close>

definition script :: "world \<Rightarrow> string \<Rightarrow> (exn + unit) \<times> event list" where
  "script w prompt =
     (case init_langchain w [] of
        (Inl e, tr) \<Rightarrow> (Inl e, tr)
      | (Inr chain, tr) \<Rightarrow>
          (case run_chain (clock w) chain prompt tr of
             (Inl e, tr1) \<Rightarrow> (Inl e, tr1)
           | (Inr (response, error_msg), tr1) \<Rightarrow>
               (Inr (), print_py [''error_msg'', error_msg]
                          (print_py [''response'', response] tr1))))"

subsection \<open>Reading a trace\<close>

fun is_chain_run_call :: "event \<Rightarrow> bool" where
  "is_chain_run_call (chain_run_call _) = True"
| "is_chain_run_call _ = False"

text \<open>The lines written to standard output, one per \<^verbatim>\<open>print\<close>, in order.\<close>

definition stdout_lines :: "event list \<Rightarrow> string list" where
  "stdout_lines tr = [s. stdout_write s \<leftarrow> tr]"

text \<open>
  What one invocation of \<open>run_chain\<close> adds to the trace it is given: its call of the
  agent and whatever it prints.
\<close>

definition run_chain_events :: "string \<Rightarrow> chain \<Rightarrow> string \<Rightarrow> event list \<Rightarrow> event list" where
  "run_chain_events now chain prompt tr = drop (length tr) (snd (run_chain now chain prompt tr))"

subsection \<open>The error taxonomy, as the specification words it\<close>

text \<open>
  The specification names five kinds of failure and says the handlers are tried in a
  fixed order. \<open>classify\<close> picks the first kind that applies to a raised object of the
  \<open>Exception\<close> hierarchy, and \<open>category_message\<close> is the text reported for each kind,
  from the clock reading and the text of \<^verbatim>\<open>str(e)\<close>. They are written from the specification and
  compared with \<open>run_chain\<close> below.
\<close>

datatype category =
    Authentication_failure
  | Rate_limit_exceeded
  | Invalid_value
  | Invalid_request
  | Unclassified

definition classify :: "exn \<Rightarrow> category" where
  "classify e =
     (if isinstance e AuthenticationError then Authentication_failure
      else if isinstance e RateLimitError then Rate_limit_exceeded
      else if isinstance e ValueError then Invalid_value
      else if isinstance e InvalidRequestError then Invalid_request
      else Unclassified)"

fun category_message :: "string \<Rightarrow> category \<Rightarrow> string \<Rightarrow> string" where
  "category_message now Authentication_failure detail = AUTH_ERR_MSG @ now @ ''. '' @ detail"
| "category_message now Rate_limit_exceeded detail = ''\<newline>\<newline>RateLimitError: '' @ detail"
| "category_message now Invalid_value detail = ''\<newline>\<newline>ValueError: '' @ detail"
| "category_message now Invalid_request detail =
     ''\<newline>\<newline>InvalidRequestError: '' @ detail"
| "category_message now Unclassified detail =
     ''\<newline>\<newline>'' @ BUG_FOUND_MSG @ '':\<newline>\<newline>'' @ detail"

subsection \<open>Mocked agents and outcomes\<close>

text \<open>
  A mocked \<^verbatim>\<open>chain.run\<close> with a fixed behaviour: it raises a fixed exception, or returns
  a fixed string, whatever the prompt.
\<close>

definition mocked_raising :: "exn \<Rightarrow> chain" where
  "mocked_raising e prompt = Inl e"

definition mocked_returning :: "string \<Rightarrow> chain" where
  "mocked_returning r prompt = Inr r"

text \<open>\<^verbatim>\<open>str(e)\<close> gives a text.\<close>

definition has_text :: "exn \<Rightarrow> bool" where
  "has_text e = (case str e of Inl raised \<Rightarrow> False | Inr msg \<Rightarrow> True)"

text \<open>
  The outcome of a call is a raise of an \<open>AuthenticationError\<close> whose text can be had:
  the one case in which \<open>run_chain\<close> puts the clock reading into its message.
\<close>

definition raises_AuthenticationError_with_text :: "exn + string \<Rightarrow> bool" where
  "raises_AuthenticationError_with_text outcome =
     (case outcome of
        Inl e \<Rightarrow> isinstance e AuthenticationError \<and> has_text e
      | Inr r \<Rightarrow> False)"



section \<open>Properties\<close>

subsection \<open>Auxiliary facts\<close>

lemma stdout_lines_print_py:
  "stdout_lines (print_py args tr) = stdout_lines tr @ [join_space args @ ''\<newline>'']"
  by (simp add: stdout_lines_def print_py_def)


text \<open>
  With the credential set and every framework constructor succeeding, initialisation
  hands back the agent; it has not called the agent and has printed nothing.
\<close>

lemma init_langchain_ok:
  assumes "''OPENAI_API_KEY'' \<in> dom (environ w)"
    and "OpenAI_raises w = None" and "load_tools_raises w = None"
    and "ConversationBufferMemory_raises w = None" and "initialize_agent_raises w = None"
  shows "\<exists>tr. init_langchain w [] = (Inr (agent w), tr) \<and>
              filter is_chain_run_call tr = [] \<and> stdout_lines tr = []"
  using assms
  by (simp add: init_langchain_def init_langchain_llm_def Let_def stdout_lines_def)

text \<open>
  What \<open>run_chain\<close> does with a raise of the \<open>Exception\<close> hierarchy whose text is
  \<open>detail\<close>: the result and the trace. Only the authentication handler prints.
\<close>

lemma run_chain_raise:
  assumes "chain prompt = Inl e" and "isinstance e Exception" and "str e = Inr detail"
  shows "run_chain now chain prompt tr =
           (Inr ('''', category_message now (classify e) detail),
            if classify e = Authentication_failure
            then print_py [''error_msg'', category_message now (classify e) detail]
                   (tr @ [chain_run_call prompt])
            else tr @ [chain_run_call prompt])"
  using assms by (simp add: run_chain_def classify_def Let_def)


text \<open>An invocation only extends the trace it is given.\<close>

lemma run_chain_extends:
  "snd (run_chain now chain prompt tr) = tr @ run_chain_events now chain prompt tr"
  by (simp add: run_chain_events_def run_chain_def Let_def print_py_def
           split: sum.splits)

text \<open>
  The standard output of a whole run, by outcome of the agent call: two lines on success
  and on every failure but the authentication one, three on an authentication failure.
\<close>

lemma script_output_success:
  assumes "''OPENAI_API_KEY'' \<in> dom (environ w)"
    and "OpenAI_raises w = None" and "load_tools_raises w = None"
    and "ConversationBufferMemory_raises w = None" and "initialize_agent_raises w = None"
    and "agent w prompt = Inr r"
  shows "stdout_lines (snd (script w prompt)) =
           [''response '' @ r @ ''\<newline>'', ''error_msg \<newline>'']"
proof -
  obtain tr0 where init: "init_langchain w [] = (Inr (agent w), tr0)"
    and out0: "stdout_lines tr0 = []"
    using init_langchain_ok [OF assms(1-5)] by blast
  have rc: "run_chain (clock w) (agent w) prompt tr0 =
              (Inr (r, ''''), tr0 @ [chain_run_call prompt])"
    using assms(6) by (simp add: run_chain_def)
  show ?thesis
    using out0 by (simp add: script_def init rc stdout_lines_print_py) (simp add: stdout_lines_def)
qed

lemma script_output_failure:
  assumes "''OPENAI_API_KEY'' \<in> dom (environ w)"
    and "OpenAI_raises w = None" and "load_tools_raises w = None"
    and "ConversationBufferMemory_raises w = None" and "initialize_agent_raises w = None"
    and "agent w prompt = Inl e" and "isinstance e Exception" and "str e = Inr detail"
    and "classify e \<noteq> Authentication_failure"
  shows "stdout_lines (snd (script w prompt)) =
           [''response \<newline>'',
            ''error_msg '' @ category_message (clock w) (classify e) detail @ ''\<newline>'']"
proof -
  obtain tr0 where init: "init_langchain w [] = (Inr (agent w), tr0)"
    and out0: "stdout_lines tr0 = []"
    using init_langchain_ok [OF assms(1-5)] by blast
  have rc: "run_chain (clock w) (agent w) prompt tr0 =
              (Inr ('''', category_message (clock w) (classify e) detail),
               tr0 @ [chain_run_call prompt])"
    using run_chain_raise [of "agent w" prompt e detail "clock w" tr0] assms(6,7,8,9)
    by simp
  show ?thesis
    using out0 by (simp add: script_def init rc stdout_lines_print_py) (simp add: stdout_lines_def)
qed

lemma script_output_auth_failure:
  assumes "''OPENAI_API_KEY'' \<in> dom (environ w)"
    and "OpenAI_raises w = None" and "load_tools_raises w = None"
    and "ConversationBufferMemory_raises w = None" and "initialize_agent_raises w = None"
    and "agent w prompt = Inl e" and "isinstance e AuthenticationError"
    and "str e = Inr detail"
  shows "stdout_lines (snd (script w prompt)) =
           [''error_msg '' @ AUTH_ERR_MSG @ clock w @ ''. '' @ detail @ ''\<newline>'',
            ''response \<newline>'',
            ''error_msg '' @ AUTH_ERR_MSG @ clock w @ ''. '' @ detail @ ''\<newline>'']"
proof -
  obtain tr0 where init: "init_langchain w [] = (Inr (agent w), tr0)"
    and out0: "stdout_lines tr0 = []"
    using init_langchain_ok [OF assms(1-5)] by blast
  have rc: "run_chain (clock w) (agent w) prompt tr0 =
              (Inr ('''', AUTH_ERR_MSG @ clock w @ ''. '' @ detail),
               print_py [''error_msg'', AUTH_ERR_MSG @ clock w @ ''. '' @ detail]
                 (tr0 @ [chain_run_call prompt]))"
    using assms(6,7,8) by (simp add: run_chain_def Let_def)
  show ?thesis
    using out0 by (simp add: script_def init rc stdout_lines_print_py) (simp add: stdout_lines_def)
qed

subsection \<open>The credential check\<close>

text \<open>
  C1. In every environment without the variable \<^verbatim>\<open>OPENAI_API_KEY\<close>, the script ends
  with the exception \<^verbatim>\<open>Exception("please set OPENAI_API_KEY environment variable")\<close>
  uncaught, and its trace is empty: no client was constructed, the agent was never
  called (so no network call was attempted), and nothing was printed. The same raise is
  what \<open>init_langchain_llm\<close> returns, leaving the trace as it found it.
\<close>

theorem missing_key_fails_first:
  assumes "''OPENAI_API_KEY'' \<notin> dom (environ w)"
  shows "init_langchain_llm w tr =
           (Inl (Exception_of ''please set OPENAI_API_KEY environment variable''), tr) \<and>
         script w prompt =
           (Inl (Exception_of ''please set OPENAI_API_KEY environment variable''), [])"
  using assms by (simp add: script_def init_langchain_def init_langchain_llm_def)

theorem missing_key_fails_first_witness:
  "''OPENAI_API_KEY'' \<notin> dom (environ
      \<lparr>environ = [''HOME'' \<mapsto> ''/root''], clock = ''2023-02-27 10:00:00.000001'',
       OpenAI_raises = None, load_tools_raises = None,
       ConversationBufferMemory_raises = None, initialize_agent_raises = None,
       agent = mocked_returning ''42''\<rparr>) \<and>
   script
      \<lparr>environ = [''HOME'' \<mapsto> ''/root''], clock = ''2023-02-27 10:00:00.000001'',
       OpenAI_raises = None, load_tools_raises = None,
       ConversationBufferMemory_raises = None, initialize_agent_raises = None,
       agent = mocked_returning ''42''\<rparr> ''How many?'' =
     (Inl (Exn [Exception, BaseException]
             (Inr ''please set OPENAI_API_KEY environment variable'')), [])"
  using missing_key_fails_first [of
      "\<lparr>environ = [''HOME'' \<mapsto> ''/root''], clock = ''2023-02-27 10:00:00.000001'',
       OpenAI_raises = None, load_tools_raises = None,
       ConversationBufferMemory_raises = None, initialize_agent_raises = None,
       agent = mocked_returning ''42''\<rparr>" "[]" "''How many?''"]
  by (simp add: Exception_of_def)

subsection \<open>The result of \<open>run_chain\<close>\<close>



text \<open>
  C3. Whenever \<^verbatim>\<open>chain.run(prompt)\<close> returns a string \<open>r\<close> without raising,
  \<open>run_chain\<close> returns exactly \<open>r\<close> as the response and the empty string as the error
  message (and prints nothing itself).
\<close>

theorem run_chain_success:
  assumes "chain prompt = Inr r"
  shows "run_chain now chain prompt tr = (Inr (r, ''''), tr @ [chain_run_call prompt])"
  using assms by (simp add: run_chain_def)

theorem run_chain_success_witness:
  "mocked_returning ''42'' ''How many?'' = Inr ''42'' \<and>
   run_chain ''t'' (mocked_returning ''42'') ''How many?'' [] =
     (Inr (''42'', ''''), [chain_run_call ''How many?''])"
  using run_chain_success [of "mocked_returning ''42''" "''How many?''" "''42''" "''t''" "[]"]
  by (simp add: mocked_returning_def)

text \<open>
  C4. Whatever \<open>run_chain\<close> returns: if the call of \<^verbatim>\<open>chain.run\<close> raised, the returned
  response is the empty string; if it succeeded, the returned error message is the
  empty string.
\<close>

theorem run_chain_empty_on_other_side:
  assumes "run_chain now chain prompt tr = (Inr (response, error_msg), tr')"
  shows "(\<forall>e. chain prompt = Inl e \<longrightarrow> response = '''') \<and>
         (\<forall>r. chain prompt = Inr r \<longrightarrow> error_msg = '''')"
  using assms
  by (auto simp add: run_chain_def Let_def split: sum.splits if_splits)

theorem run_chain_empty_on_other_side_witness:
  "run_chain ''t'' (mocked_raising
       (Exn [RateLimitError, OpenAIError, Exception, BaseException]
          (Inr ''quota exceeded''))) ''hi'' [] =
     (Inr ('''', ''\<newline>\<newline>RateLimitError: quota exceeded''), [chain_run_call ''hi'']) \<and>
   run_chain ''t'' (mocked_returning ''42'') ''hi'' [] =
     (Inr (''42'', ''''), [chain_run_call ''hi''])"
proof -
  have a: "run_chain ''t'' (mocked_raising
       (Exn [RateLimitError, OpenAIError, Exception, BaseException]
          (Inr ''quota exceeded''))) ''hi'' [] =
     (Inr ('''', ''\<newline>\<newline>RateLimitError: quota exceeded''), [chain_run_call ''hi''])"
    by (simp add: run_chain_def mocked_raising_def isinstance_def)
  have b: "run_chain ''t'' (mocked_returning ''42'') ''hi'' [] =
     (Inr (''42'', ''''), [chain_run_call ''hi''])"
    by (simp add: run_chain_def mocked_returning_def)
  note run_chain_empty_on_other_side [OF a] run_chain_empty_on_other_side [OF b]
  then show ?thesis using a b by simp
qed



text \<open>
  C9. Of the two strings \<open>run_chain\<close> returns, at least one is empty: no run yields a
  non-empty response together with a non-empty error message.
\<close>

theorem run_chain_one_side_empty:
  assumes "run_chain now chain prompt tr = (Inr (response, error_msg), tr')"
  shows "response = '''' \<or> error_msg = ''''"
  using assms
  by (auto simp add: run_chain_def Let_def split: sum.splits if_splits)

theorem run_chain_one_side_empty_witness:
  "run_chain ''t'' (mocked_returning ''42'') ''hi'' [] =
     (Inr (''42'', ''''), [chain_run_call ''hi'']) \<and>
   (''42'' = '''' \<or> ('''' :: string) = '''')"
proof -
  have a: "run_chain ''t'' (mocked_returning ''42'') ''hi'' [] =
     (Inr (''42'', ''''), [chain_run_call ''hi''])"
    by (simp add: run_chain_def mocked_returning_def)
  from run_chain_one_side_empty [OF a] a show ?thesis by simp
qed

subsection \<open>Whether \<open>run_chain\<close> returns\<close>




subsection \<open>Dependence on the clock and on what came before\<close>

text \<open>
  C7, as stated, fails: with one and the same mocked agent, raising one and the same
  \<open>AuthenticationError\<close>, and the same prompt, two invocations of \<open>run_chain\<close> at
  different times return different error messages and print different lines.
\<close>

theorem run_chain_repeat_counterexample:
  "run_chain ''2023-02-27 10:00:00.000001'' (mocked_raising
       (Exn [AuthenticationError, OpenAIError, Exception, BaseException]
          (Inr ''Incorrect API key provided''))) ''hi'' [] \<noteq>
   run_chain ''2023-02-27 10:00:07.500000'' (mocked_raising
       (Exn [AuthenticationError, OpenAIError, Exception, BaseException]
          (Inr ''Incorrect API key provided''))) ''hi'' []"
  by (simp add: run_chain_def mocked_raising_def isinstance_def Let_def)

text \<open>
  C7, amended. Take a fixed agent behaviour and a fixed prompt, and two invocations of
  \<open>run_chain\<close>, at clock readings \<open>now1\<close> and \<open>now2\<close>, after any two histories \<open>tr1\<close> and
  \<open>tr2\<close> (so also one after the other). Each leaves the history it found in place and
  adds its own events to it. The two return the same values and add the same events
  (the same call, the same printed output) exactly when they read the same time or the
  agent call is not a raise of an \<open>AuthenticationError\<close> with a text: nothing of what
  happened before reaches the result, and the clock reaches it in the authentication
  message only.
\<close>

theorem run_chain_repeat:
  "snd (run_chain now1 chain prompt tr1) = tr1 @ run_chain_events now1 chain prompt tr1 \<and>
   snd (run_chain now2 chain prompt tr2) = tr2 @ run_chain_events now2 chain prompt tr2 \<and>
   ((fst (run_chain now1 chain prompt tr1) = fst (run_chain now2 chain prompt tr2) \<and>
     run_chain_events now1 chain prompt tr1 = run_chain_events now2 chain prompt tr2)
    \<longleftrightarrow> now1 = now2 \<or> \<not> raises_AuthenticationError_with_text (chain prompt))"
proof -
  have same: "(fst (run_chain now1 chain prompt tr1) = fst (run_chain now2 chain prompt tr2) \<and>
     run_chain_events now1 chain prompt tr1 = run_chain_events now2 chain prompt tr2)
    \<longleftrightarrow> now1 = now2 \<or> \<not> raises_AuthenticationError_with_text (chain prompt)"
  proof (cases "chain prompt")
    case (Inr r)
    then show ?thesis
      by (simp add: run_chain_def run_chain_events_def
            raises_AuthenticationError_with_text_def)
  next
    case (Inl e)
    note agent_raises = this
    show ?thesis
    proof (cases "str e")
      case (Inl raised)
      with agent_raises show ?thesis
        by (simp add: run_chain_def run_chain_events_def Let_def
              raises_AuthenticationError_with_text_def has_text_def)
    next
      case (Inr detail)
      with agent_raises show ?thesis
        by (simp add: run_chain_def run_chain_events_def Let_def print_py_def
              raises_AuthenticationError_with_text_def has_text_def)
    qed
  qed
  show ?thesis using same by (simp add: run_chain_extends)
qed

theorem run_chain_repeat_witness:
  "\<not> raises_AuthenticationError_with_text (mocked_raising
       (Exn [RateLimitError, OpenAIError, Exception, BaseException]
          (Inr ''quota exceeded'')) ''hi'') \<and>
   fst (run_chain ''2023-02-27 10:00:00.000001'' (mocked_raising
       (Exn [RateLimitError, OpenAIError, Exception, BaseException]
          (Inr ''quota exceeded''))) ''hi'' []) =
   fst (run_chain ''2023-02-27 10:00:07.500000'' (mocked_raising
       (Exn [RateLimitError, OpenAIError, Exception, BaseException]
          (Inr ''quota exceeded''))) ''hi''
       [chain_run_call ''hi'', stdout_write ''response \<newline>'']) \<and>
   run_chain_events ''2023-02-27 10:00:00.000001'' (mocked_raising
       (Exn [RateLimitError, OpenAIError, Exception, BaseException]
          (Inr ''quota exceeded''))) ''hi'' [] =
   run_chain_events ''2023-02-27 10:00:07.500000'' (mocked_raising
       (Exn [RateLimitError, OpenAIError, Exception, BaseException]
          (Inr ''quota exceeded''))) ''hi''
       [chain_run_call ''hi'', stdout_write ''response \<newline>'']"
  using run_chain_repeat [of "''2023-02-27 10:00:00.000001''" "mocked_raising
       (Exn [RateLimitError, OpenAIError, Exception, BaseException]
          (Inr ''quota exceeded''))" "''hi''" "[]"
      "''2023-02-27 10:00:07.500000''"
      "[chain_run_call ''hi'', stdout_write ''response \<newline>'']"]
  by (simp add: raises_AuthenticationError_with_text_def mocked_raising_def isinstance_def)

subsection \<open>A whole run\<close>

text \<open>
  C5, at an authentication failure. With the credential set, initialisation succeeding
  and the agent raising an \<open>AuthenticationError\<close>, the script prints three lines, not
  two: the handler in \<open>run_chain\<close> prints the error message itself, and the module then
  prints the response and the error message again.
\<close>

theorem script_auth_failure_prints_three_lines:
  "stdout_lines (snd (script
      \<lparr>environ = [''OPENAI_API_KEY'' \<mapsto> ''sk-0000''], clock = ''2023-02-27 10:00:00.000001'',
       OpenAI_raises = None, load_tools_raises = None,
       ConversationBufferMemory_raises = None, initialize_agent_raises = None,
       agent = mocked_raising
         (Exn [AuthenticationError, OpenAIError, Exception, BaseException]
          (Inr ''Incorrect API key provided''))\<rparr> ''hi'')) =
     [''error_msg '' @ AUTH_ERR_MSG @
        ''2023-02-27 10:00:00.000001. Incorrect API key provided\<newline>'',
      ''response \<newline>'',
      ''error_msg '' @ AUTH_ERR_MSG @
        ''2023-02-27 10:00:00.000001. Incorrect API key provided\<newline>'']"
  by (simp add: script_def init_langchain_def init_langchain_llm_def run_chain_def
        mocked_raising_def isinstance_def Let_def print_py_def stdout_lines_def)




end
